theory Spec2Isabelle
  imports Main
begin

section \<open>Pistols at Dawn duel history: the data of \<open>pages/index.js\<close>\<close>

text \<open>
  The page keeps three pieces of state (the search text \<open>player\<close>, the result set
  \<open>duels\<close> and an \<open>error\<close> message), fetches the duels of a player from a GraphQL
  endpoint, and derives from \<open>duels\<close> and \<open>player\<close> a win/loss tally and one table row per
  duel, written from the searched player's point of view.

  A JavaScript value that may be \<open>null\<close> or \<open>undefined\<close> is an \<open>option\<close>: the code treats
  both alike everywhere (\<open>?.\<close> yields \<open>undefined\<close>, \<open>||\<close> and \<open>&&\<close> see a falsy value, a
  property read or method call on it throws a \<open>TypeError\<close>), so \<open>None\<close> stands for
  either. Every field the code reads through may be missing: a participant, an
  address, a user name, a step sequence, the winner. The elements of \<open>duels\<close> are
  objects. Strings are byte strings; the addresses compared are hexadecimal text. The
  elements of a step sequence are opaque: their type is a parameter \<open>'a\<close>, and the
  conversion to text that \<open>Array.prototype.join\<close> applies to each element is a
  parameter \<open>str\<close> of the functions that join.
\<close>

record participant =
  address :: "string option"
  username :: "string option"

record 'a duel =
  duel_id :: string
  player1 :: "participant option"
  player2 :: "participant option"
  shotStepsP1 :: "'a list option"
  shotStepsP2 :: "'a list option"
  dodgeStepsP1 :: "'a list option"
  dodgeStepsP2 :: "'a list option"
  winner :: "string option"

datatype js_error = TypeError

subsection \<open>Strings\<close>

text \<open>
  \<open>String.prototype.toLowerCase\<close> on text of the ASCII range: the letters \<open>A\<close> to \<open>Z\<close>
  (codes 65 to 90) move to \<open>a\<close> to \<open>z\<close>, every other character stays.
\<close>

definition lowerChar :: "char \<Rightarrow> char" where
  "lowerChar c =
     (if 65 \<le> (of_char c :: nat) \<and> (of_char c :: nat) \<le> 90
      then char_of ((of_char c :: nat) + 32) else c)"

definition toLowerCase :: "string \<Rightarrow> string" where
  "toLowerCase s = map lowerChar s"

text \<open>
  \<open>a || b\<close> on values that are a string, \<open>null\<close> or \<open>undefined\<close>: \<open>a\<close> when it is
  truthy (a non-empty string), else \<open>b\<close>.
\<close>

definition js_or :: "string option \<Rightarrow> string option \<Rightarrow> string option" where
  "js_or a b = (case a of None \<Rightarrow> b | Some s \<Rightarrow> if s = [] then b else Some s)"

text \<open>\<open>Array.prototype.join(sep)\<close> on an array whose elements are already text.\<close>

fun join :: "string \<Rightarrow> string list \<Rightarrow> string" where
  "join sep [] = []"
| "join sep [x] = x"
| "join sep (x # y # ys) = x @ sep @ join sep (y # ys)"

text \<open>
  \<open>steps.join(', ')\<close> where \<open>steps\<close> was read from a field of the duel: a method call on
  \<open>undefined\<close> throws.
\<close>

definition js_join :: "('a \<Rightarrow> string) \<Rightarrow> 'a list option \<Rightarrow> js_error + string" where
  "js_join str steps =
     (case steps of None \<Rightarrow> Inl TypeError | Some xs \<Rightarrow> Inr (join '', '' (map str xs)))"

text \<open>The text React renders for \<open>{v}\<close>: nothing for \<open>null\<close> and \<open>undefined\<close>.\<close>

definition cellText :: "string option \<Rightarrow> string" where
  "cellText v = (case v of None \<Rightarrow> [] | Some s \<Rightarrow> s)"

subsection \<open>The win/loss tally (lines 61 to 66)\<close>

text \<open>
  \<open>d.winner?.toLowerCase() === player.toLowerCase()\<close>: the left side is \<open>undefined\<close> for
  a missing winner, and \<open>undefined\<close> is strictly equal to no string.
\<close>

definition isWin :: "string \<Rightarrow> 'a duel \<Rightarrow> bool" where
  "isWin player d = (map_option toLowerCase (winner d) = Some (toLowerCase player))"

definition wins :: "'a duel list \<Rightarrow> string \<Rightarrow> int" where
  "wins duels player = int (length (filter (isWin player) duels))"

definition losses :: "'a duel list \<Rightarrow> string \<Rightarrow> int" where
  "losses duels player = int (length duels) - wins duels player"

definition chartData :: "'a duel list \<Rightarrow> string \<Rightarrow> (string \<times> int) list" where
  "chartData duels player =
     [(''Wins'', wins duels player), (''Losses'', losses duels player)]"

subsection \<open>One table row per duel (lines 112 to 133)\<close>

text \<open>
  Line 113. \<open>duel.player1.address.toLowerCase()\<close> throws when \<open>player1\<close> is missing
  (the read of \<open>address\<close>) and when its address is missing (the call of
  \<open>toLowerCase\<close>). The second participant's address is never compared.
\<close>

definition isPlayer1 :: "'a duel \<Rightarrow> string \<Rightarrow> js_error + bool" where
  "isPlayer1 duel player =
     (case player1 duel of
        None \<Rightarrow> Inl TypeError
      | Some p1 \<Rightarrow>
          (case address p1 of
             None \<Rightarrow> Inl TypeError
           | Some a \<Rightarrow> Inr (toLowerCase a = toLowerCase player)))"

text \<open>
  Lines 114 to 119: every constant is a conditional on \<open>isPlayer1\<close>. The four step
  sequences are plain reads of the duel. The opponent's label reads \<open>username\<close> of
  the other participant, which throws when that participant is missing.
\<close>

definition yourShots :: "bool \<Rightarrow> 'a duel \<Rightarrow> 'a list option" where
  "yourShots isP1 duel = (if isP1 then shotStepsP1 duel else shotStepsP2 duel)"

definition yourDodges :: "bool \<Rightarrow> 'a duel \<Rightarrow> 'a list option" where
  "yourDodges isP1 duel = (if isP1 then dodgeStepsP1 duel else dodgeStepsP2 duel)"

definition oppShots :: "bool \<Rightarrow> 'a duel \<Rightarrow> 'a list option" where
  "oppShots isP1 duel = (if isP1 then shotStepsP2 duel else shotStepsP1 duel)"

definition oppDodges :: "bool \<Rightarrow> 'a duel \<Rightarrow> 'a list option" where
  "oppDodges isP1 duel = (if isP1 then dodgeStepsP2 duel else dodgeStepsP1 duel)"

definition opponent :: "bool \<Rightarrow> 'a duel \<Rightarrow> js_error + string option" where
  "opponent isP1 duel =
     (if isP1
      then (case player2 duel of
              None \<Rightarrow> Inl TypeError
            | Some p2 \<Rightarrow> Inr (js_or (username p2) (address p2)))
      else (case player1 duel of
              None \<Rightarrow> Inl TypeError
            | Some p1 \<Rightarrow> Inr (js_or (username p1) (address p1))))"

text \<open>
  Lines 120 and 121, \<open>duel.winner && (... ? 'You' : 'Opponent')\<close>: a falsy winner
  (\<open>null\<close>, \<open>undefined\<close> or the empty string) is itself the value, a truthy one is
  compared with the searched player.
\<close>

definition winner_label :: "'a duel \<Rightarrow> string \<Rightarrow> string option" where
  "winner_label duel player =
     (case winner duel of
        None \<Rightarrow> None
      | Some w \<Rightarrow>
          if w = [] then Some w
          else Some (if toLowerCase w = toLowerCase player then ''You'' else ''Opponent''))"

text \<open>
  The constants of one run of the callback, before the row is built. Lines 113 and
  118 are the two that can throw, in this order.
\<close>

record 'a projection =
  pr_id :: string
  pr_opponent :: "string option"
  pr_yourShots :: "'a list option"
  pr_yourDodges :: "'a list option"
  pr_oppShots :: "'a list option"
  pr_oppDodges :: "'a list option"
  pr_winner :: "string option"

definition project :: "'a duel \<Rightarrow> string \<Rightarrow> js_error + 'a projection" where
  "project duel player =
     (case isPlayer1 duel player of
        Inl e \<Rightarrow> Inl e
      | Inr isP1 \<Rightarrow>
          (case opponent isP1 duel of
             Inl e \<Rightarrow> Inl e
           | Inr opp \<Rightarrow>
               Inr \<lparr>pr_id = duel_id duel,
                    pr_opponent = opp,
                    pr_yourShots = yourShots isP1 duel,
                    pr_yourDodges = yourDodges isP1 duel,
                    pr_oppShots = oppShots isP1 duel,
                    pr_oppDodges = oppDodges isP1 duel,
                    pr_winner = winner_label duel player\<rparr>))"

text \<open>
  Lines 122 to 132: the \<open>tr\<close> element, its key and its seven cells in order. The four
  joins run left to right, and the first one on a missing sequence throws.
\<close>

record table_row =
  row_key :: string
  row_cells :: "string list"

definition renderRow :: "('a \<Rightarrow> string) \<Rightarrow> 'a projection \<Rightarrow> js_error + table_row" where
  "renderRow str pr =
     (case js_join str (pr_yourShots pr) of Inl e \<Rightarrow> Inl e | Inr ys \<Rightarrow>
      case js_join str (pr_yourDodges pr) of Inl e \<Rightarrow> Inl e | Inr yd \<Rightarrow>
      case js_join str (pr_oppShots pr) of Inl e \<Rightarrow> Inl e | Inr os \<Rightarrow>
      case js_join str (pr_oppDodges pr) of Inl e \<Rightarrow> Inl e | Inr od \<Rightarrow>
        Inr \<lparr>row_key = pr_id pr,
             row_cells = [pr_id pr, cellText (pr_opponent pr), ys, yd, os, od,
                          cellText (pr_winner pr)]\<rparr>)"

definition duelRow :: "('a \<Rightarrow> string) \<Rightarrow> 'a duel \<Rightarrow> string \<Rightarrow> js_error + table_row" where
  "duelRow str duel player =
     (case project duel player of Inl e \<Rightarrow> Inl e | Inr pr \<Rightarrow> renderRow str pr)"

text \<open>
  \<open>duels.map(duel => ...)\<close>: the callback runs on the duels in order, and an exception of
  one run ends the whole map. The page renders the table only when there is a duel;
  on no duel the map would give no row.
\<close>

fun projectAll :: "('a \<Rightarrow> string) \<Rightarrow> 'a duel list \<Rightarrow> string \<Rightarrow> js_error + table_row list" where
  "projectAll str [] player = Inr []"
| "projectAll str (d # ds) player =
     (case duelRow str d player of
        Inl e \<Rightarrow> Inl e
      | Inr r \<Rightarrow>
          (case projectAll str ds player of
             Inl e \<Rightarrow> Inl e
           | Inr rs \<Rightarrow> Inr (r # rs)))"

subsection \<open>The search (lines 30 to 58)\<close>

text \<open>
  What the endpoint answered is an input of the model. \<open>Threw m\<close>: \<open>fetch\<close>,
  \<open>res.json()\<close> or the read of \<open>json.errors\<close> threw an exception whose \<open>message\<close> is
  \<open>m\<close>. \<open>Resolved j\<close>: the body parsed to the object \<open>j\<close>, where \<open>errors\<close> is \<open>Some s\<close> for a truthy \<open>json.errors\<close> whose
  \<open>JSON.stringify\<close> is \<open>s\<close>. The state's \<open>duels\<close> may become \<open>undefined\<close>, when
  \<open>json.data\<close> has no \<open>allDuels\<close>.
\<close>

record 'a response_data =
  allDuels :: "'a duel list option"

record 'a response_json =
  errors :: "string option"
  data :: "'a response_data option"

datatype 'a fetch_result = Threw string | Resolved "'a response_json"

record 'a page_state =
  player :: string
  duels :: "'a duel list option"
  error :: "string option"

definition initial_state :: "'a page_state" where
  "initial_state = \<lparr>player = [], duels = Some [], error = None\<rparr>"

text \<open>
  \<open>searchDuels\<close>, from the state it starts in and the answer it awaits to the state it
  leaves. \<open>tmsg\<close> is the message of the engine's \<open>TypeError\<close> for reading \<open>allDuels\<close> of
  a missing \<open>json.data\<close>, which the \<open>catch\<close> reports like a failed request.
\<close>

definition searchDuels :: "string \<Rightarrow> 'a page_state \<Rightarrow> 'a fetch_result \<Rightarrow> 'a page_state" where
  "searchDuels tmsg st res =
     (let st1 = st\<lparr>error := None\<rparr> in
      case res of
        Threw m \<Rightarrow> st1\<lparr>error := Some (''Request failed: '' @ m)\<rparr>
      | Resolved json \<Rightarrow>
          (case errors json of
             Some s \<Rightarrow> st1\<lparr>error := Some (''GraphQL error: '' @ s)\<rparr>
           | None \<Rightarrow>
               (case data json of
                  None \<Rightarrow> st1\<lparr>error := Some (''Request failed: '' @ tmsg)\<rparr>
                | Some dt \<Rightarrow> st1\<lparr>duels := allDuels dt\<rparr>)))"


subsection \<open>Perspectives and sample duels\<close>

text \<open>
  The two perspectives the specification names, as predicates on a projection, to
  compare with what \<open>project\<close> computes. First slot: the searched player is \<open>player1\<close>,
  so the player's own sequences are those of \<open>player1\<close>, the opponent's sequences and
  the opponent's label (user name, else address) those of \<open>player2\<close>. Second slot: the
  mirror image.
\<close>

definition fromFirstSlot :: "'a duel \<Rightarrow> 'a projection \<Rightarrow> bool" where
  "fromFirstSlot d r =
     (pr_yourShots r = shotStepsP1 d \<and> pr_yourDodges r = dodgeStepsP1 d \<and>
      pr_oppShots r = shotStepsP2 d \<and> pr_oppDodges r = dodgeStepsP2 d \<and>
      (case player2 d of
         None \<Rightarrow> False
       | Some p2 \<Rightarrow> pr_opponent r = js_or (username p2) (address p2)))"

definition fromSecondSlot :: "'a duel \<Rightarrow> 'a projection \<Rightarrow> bool" where
  "fromSecondSlot d r =
     (pr_yourShots r = shotStepsP2 d \<and> pr_yourDodges r = dodgeStepsP2 d \<and>
      pr_oppShots r = shotStepsP1 d \<and> pr_oppDodges r = dodgeStepsP1 d \<and>
      (case player1 d of
         None \<Rightarrow> False
       | Some p1 \<Rightarrow> pr_opponent r = js_or (username p1) (address p1)))"

text \<open>
  Two duels whose steps are text already, so that \<open>join\<close> converts with the identity:
  one between \<open>0xAA\<close> and \<open>0xBB\<close> that \<open>0xAA\<close> won, and one between two other
  addresses whose \<open>winner\<close> field is nevertheless \<open>0xaa\<close>.
\<close>

definition duel_d1 :: "string duel" where
  "duel_d1 =
     \<lparr>duel_id = ''d1'',
      player1 = Some \<lparr>address = Some ''0xAA'', username = None\<rparr>,
      player2 = Some \<lparr>address = Some ''0xBB'', username = Some ''bob''\<rparr>,
      shotStepsP1 = Some [''1'', ''2''], shotStepsP2 = Some [''3''],
      dodgeStepsP1 = Some [''4''], dodgeStepsP2 = Some [''5'', ''6''],
      winner = Some ''0xAA''\<rparr>"

definition duel_foreign :: "string duel" where
  "duel_foreign =
     \<lparr>duel_id = ''d2'',
      player1 = Some \<lparr>address = Some ''0x11'', username = Some ''ann''\<rparr>,
      player2 = Some \<lparr>address = Some ''0x22'', username = None\<rparr>,
      shotStepsP1 = Some [''7''], shotStepsP2 = Some [''8''],
      dodgeStepsP1 = Some [''9''], dodgeStepsP2 = Some [],
      winner = Some ''0xaa''\<rparr>"

section \<open>Basic facts\<close>

subsection \<open>Lower case\<close>

lemma lowerChar_idem: "lowerChar (lowerChar c) = lowerChar c"
  by (auto simp add: lowerChar_def)

lemma toLowerCase_idem: "toLowerCase (toLowerCase s) = toLowerCase s"
  by (simp add: toLowerCase_def lowerChar_idem)

lemma toLowerCase_Nil_iff: "toLowerCase s = [] \<longleftrightarrow> s = []"
  by (simp add: toLowerCase_def)

lemma lower_0xAA: "toLowerCase ''0xAA'' = ''0xaa''" by code_simp
lemma lower_0xaa: "toLowerCase ''0xaa'' = ''0xaa''" by code_simp
lemma lower_0xBB: "toLowerCase ''0xBB'' = ''0xbb''" by code_simp
lemma lower_0xcc: "toLowerCase ''0xcc'' = ''0xcc''" by code_simp
lemma lower_0xABC: "toLowerCase ''0xABC'' = ''0xabc''" by code_simp
lemma lower_0xabc: "toLowerCase ''0xabc'' = ''0xabc''" by code_simp
lemma lower_0x11: "toLowerCase ''0x11'' = ''0x11''" by code_simp
lemma lower_0x22: "toLowerCase ''0x22'' = ''0x22''" by code_simp
lemma lower_empty: "toLowerCase [] = []" by (simp add: toLowerCase_def)

lemmas lower_examples = lower_0xAA lower_0xaa lower_0xBB lower_0xcc lower_0xABC
  lower_0xabc lower_0x11 lower_0x22 lower_empty

subsection \<open>The tally\<close>

lemma isWin_iff: "isWin p d \<longleftrightarrow> (\<exists>w. winner d = Some w \<and> toLowerCase w = toLowerCase p)"
  by (cases "winner d") (auto simp: isWin_def)

lemma wins_Cons: "wins (d # ds) p = (if isWin p d then 1 else 0) + wins ds p"
  by (simp add: wins_def)

lemma losses_eq_filter: "losses ds p = int (length (filter (\<lambda>d. \<not> isWin p d) ds))"
proof -
  have "length (filter (isWin p) ds) + length (filter (\<lambda>d. \<not> isWin p d) ds) = length ds"
    by (rule sum_length_filter_compl)
  then show ?thesis
    by (simp add: wins_def losses_def)
qed

lemma wins_winner_only:
  "map winner ds = map winner ds' \<Longrightarrow> wins ds p = wins ds' p"
proof (induction ds arbitrary: ds')
  case Nil
  then show ?case by (simp add: wins_def)
next
  case (Cons d ds)
  then obtain e es where ds': "ds' = e # es" and w: "winner d = winner e"
    and rest: "map winner ds = map winner es"
    by (cases ds') auto
  from w have "isWin p d = isWin p e"
    by (simp add: isWin_def)
  with Cons.IH [OF rest] ds' show ?case
    by (simp add: wins_Cons)
qed

subsection \<open>The callback\<close>

lemmas slot_defs = yourShots_def yourDodges_def oppShots_def oppDodges_def

lemma isPlayer1_Some:
  "player1 d = Some p1 \<Longrightarrow> address p1 = Some a \<Longrightarrow>
   isPlayer1 d p = Inr (toLowerCase a = toLowerCase p)"
  by (simp add: isPlayer1_def)

lemma isPlayer1_InrD:
  assumes "isPlayer1 d p = Inr b"
  obtains p1 a where "player1 d = Some p1" and "address p1 = Some a"
    and "b = (toLowerCase a = toLowerCase p)"
  using assms by (auto simp add: isPlayer1_def split: option.splits)

lemma opponent_first:
  "opponent True d =
     (case player2 d of None \<Rightarrow> Inl TypeError
      | Some p2 \<Rightarrow> Inr (js_or (username p2) (address p2)))"
  by (simp add: opponent_def)

lemma opponent_second:
  "player1 d = Some p1 \<Longrightarrow> opponent False d = Inr (js_or (username p1) (address p1))"
  by (simp add: opponent_def)

lemma project_second:
  assumes "player1 d = Some p1" and "address p1 = Some a"
    and "toLowerCase a \<noteq> toLowerCase p"
  shows "project d p =
     Inr \<lparr>pr_id = duel_id d,
          pr_opponent = js_or (username p1) (address p1),
          pr_yourShots = shotStepsP2 d, pr_yourDodges = dodgeStepsP2 d,
          pr_oppShots = shotStepsP1 d, pr_oppDodges = dodgeStepsP1 d,
          pr_winner = winner_label d p\<rparr>"
  using assms by (simp add: project_def isPlayer1_Some opponent_second slot_defs)

lemma project_first:
  assumes "player1 d = Some p1" and "address p1 = Some a"
    and "toLowerCase a = toLowerCase p"
  shows "project d p =
     (case player2 d of
        None \<Rightarrow> Inl TypeError
      | Some p2 \<Rightarrow>
          Inr \<lparr>pr_id = duel_id d,
               pr_opponent = js_or (username p2) (address p2),
               pr_yourShots = shotStepsP1 d, pr_yourDodges = dodgeStepsP1 d,
               pr_oppShots = shotStepsP2 d, pr_oppDodges = dodgeStepsP2 d,
               pr_winner = winner_label d p\<rparr>)"
  using assms
  by (cases "player2 d") (simp_all add: project_def isPlayer1_Some opponent_first slot_defs)

lemma project_no_player1: "player1 d = None \<Longrightarrow> project d p = Inl TypeError"
  by (simp add: project_def isPlayer1_def)

lemma project_no_address:
  "player1 d = Some p1 \<Longrightarrow> address p1 = None \<Longrightarrow> project d p = Inl TypeError"
  by (simp add: project_def isPlayer1_def)

lemma project_InrD:
  assumes "project d p = Inr r"
  obtains p1 a where "player1 d = Some p1" and "address p1 = Some a"
    and "pr_id r = duel_id d" and "pr_winner r = winner_label d p"
    and "pr_yourShots r = yourShots (toLowerCase a = toLowerCase p) d"
    and "pr_yourDodges r = yourDodges (toLowerCase a = toLowerCase p) d"
    and "pr_oppShots r = oppShots (toLowerCase a = toLowerCase p) d"
    and "pr_oppDodges r = oppDodges (toLowerCase a = toLowerCase p) d"
    and "opponent (toLowerCase a = toLowerCase p) d = Inr (pr_opponent r)"
proof (cases "isPlayer1 d p")
  case (Inl e)
  with assms show ?thesis by (simp add: project_def)
next
  case (Inr b)
  then obtain p1 a where p1: "player1 d = Some p1" and a: "address p1 = Some a"
    and b: "b = (toLowerCase a = toLowerCase p)"
    by (rule isPlayer1_InrD)
  show ?thesis
  proof (cases "opponent b d")
    case (Inl e)
    with assms Inr show ?thesis by (simp add: project_def)
  next
    case (Inr opp)
    with assms \<open>isPlayer1 d p = Inr b\<close> have "r =
        \<lparr>pr_id = duel_id d, pr_opponent = opp,
         pr_yourShots = yourShots b d, pr_yourDodges = yourDodges b d,
         pr_oppShots = oppShots b d, pr_oppDodges = oppDodges b d,
         pr_winner = winner_label d p\<rparr>"
      by (simp add: project_def)
    with Inr b show ?thesis
      by (intro that [OF p1 a]) simp_all
  qed
qed

lemma project_returns_iff:
  "(\<exists>r. project d p = Inr r) \<longleftrightarrow>
   (\<exists>p1 a. player1 d = Some p1 \<and> address p1 = Some a \<and>
      (toLowerCase a = toLowerCase p \<longrightarrow> player2 d \<noteq> None))"
proof (cases "player1 d")
  case None
  then show ?thesis by (simp add: project_no_player1)
next
  case (Some p1)
  show ?thesis
  proof (cases "address p1")
    case None
    with Some show ?thesis by (simp add: project_no_address)
  next
    case a: (Some a)
    show ?thesis
    proof (cases "toLowerCase a = toLowerCase p")
      case True
      with Some a show ?thesis
        by (cases "player2 d") (simp_all add: project_first)
    next
      case False
      with Some a show ?thesis
        by (simp add: project_second)
    qed
  qed
qed

lemma winner_label_cases:
  "winner_label d p =
     (case winner d of None \<Rightarrow> None
      | Some w \<Rightarrow> if w = [] then Some []
                  else if toLowerCase w = toLowerCase p then Some ''You'' else Some ''Opponent'')"
  by (simp add: winner_label_def split: option.splits)

lemma renderRow_Inr_iff:
  "(\<exists>row. renderRow str pr = Inr row) \<longleftrightarrow>
   pr_yourShots pr \<noteq> None \<and> pr_yourDodges pr \<noteq> None \<and>
   pr_oppShots pr \<noteq> None \<and> pr_oppDodges pr \<noteq> None"
  by (cases "pr_yourShots pr"; cases "pr_yourDodges pr"; cases "pr_oppShots pr";
      cases "pr_oppDodges pr") (simp_all add: renderRow_def js_join_def)

lemma projectAll_Inr_iff:
  "projectAll str ds p = Inr rs \<longleftrightarrow> list_all2 (\<lambda>d r. duelRow str d p = Inr r) ds rs"
proof (induction ds arbitrary: rs)
  case Nil
  show ?case by auto
next
  case (Cons d ds)
  show ?case
  proof (cases "duelRow str d p")
    case (Inl e)
    then show ?thesis by (simp add: list_all2_Cons1)
  next
    case (Inr r)
    then show ?thesis
      by (cases "projectAll str ds p") (auto simp add: list_all2_Cons1 Cons.IH [symmetric])
  qed
qed

lemma projectAll_Inl_iff:
  "(\<exists>e. projectAll str ds p = Inl e) \<longleftrightarrow> (\<exists>d \<in> set ds. \<exists>e. duelRow str d p = Inl e)"
  by (induction ds) (auto split: sum.splits)

lemma projectAll_append:
  "projectAll str (ds @ es) p =
     (case projectAll str ds p of
        Inl e \<Rightarrow> Inl e
      | Inr rs1 \<Rightarrow> (case projectAll str es p of Inl e \<Rightarrow> Inl e | Inr rs2 \<Rightarrow> Inr (rs1 @ rs2)))"
  by (induction ds) (auto split: sum.splits)

text \<open>The callback on the sample duels.\<close>

lemma project_d1_0xaa:
  "project duel_d1 ''0xaa'' =
     Inr \<lparr>pr_id = ''d1'', pr_opponent = Some ''bob'',
          pr_yourShots = Some [''1'', ''2''], pr_yourDodges = Some [''4''],
          pr_oppShots = Some [''3''], pr_oppDodges = Some [''5'', ''6''],
          pr_winner = Some ''You''\<rparr>"
  by (simp add: lower_examples project_def isPlayer1_def duel_d1_def slot_defs opponent_def
      js_or_def winner_label_def)

lemma project_d1_0xcc:
  "project duel_d1 ''0xcc'' =
     Inr \<lparr>pr_id = ''d1'', pr_opponent = Some ''0xAA'',
          pr_yourShots = Some [''3''], pr_yourDodges = Some [''5'', ''6''],
          pr_oppShots = Some [''1'', ''2''], pr_oppDodges = Some [''4''],
          pr_winner = Some ''Opponent''\<rparr>"
  by (simp add: lower_examples project_def isPlayer1_def duel_d1_def slot_defs opponent_def
      js_or_def winner_label_def)

lemma project_foreign_0xaa:
  "project duel_foreign ''0xaa'' =
     Inr \<lparr>pr_id = ''d2'', pr_opponent = Some ''ann'',
          pr_yourShots = Some [''8''], pr_yourDodges = Some [],
          pr_oppShots = Some [''7''], pr_oppDodges = Some [''9''],
          pr_winner = Some ''You''\<rparr>"
  by (simp add: lower_examples project_def isPlayer1_def duel_foreign_def slot_defs
      opponent_def js_or_def winner_label_def)

text \<open>
  Without \<open>player2\<close>, line 118 throws for the search of \<open>player1\<close>, and is not reached
  with \<open>player2\<close> for any other search.
\<close>

lemma project_player2_missing:
  "project (duel_d1\<lparr>player2 := None\<rparr>) ''0xaa'' = Inl TypeError \<and>
   project (duel_d1\<lparr>player2 := None\<rparr>) ''0xcc'' =
     Inr \<lparr>pr_id = ''d1'', pr_opponent = Some ''0xAA'',
          pr_yourShots = Some [''3''], pr_yourDodges = Some [''5'', ''6''],
          pr_oppShots = Some [''1'', ''2''], pr_oppDodges = Some [''4''],
          pr_winner = Some ''Opponent''\<rparr>"
  by (simp add: lower_examples project_def isPlayer1_def duel_d1_def slot_defs opponent_def
      js_or_def winner_label_def)

lemma duelRow_d1_0xaa:
  "duelRow (\<lambda>s. s) duel_d1 ''0xaa'' =
     Inr \<lparr>row_key = ''d1'',
          row_cells = [''d1'', ''bob'', ''1, 2'', ''4'', ''3'', ''5, 6'', ''You'']\<rparr>"
  by (simp add: duelRow_def project_d1_0xaa renderRow_def js_join_def cellText_def)

lemma duelRow_foreign_0xaa:
  "duelRow (\<lambda>s. s) duel_foreign ''0xaa'' =
     Inr \<lparr>row_key = ''d2'',
          row_cells = [''d2'', ''ann'', ''8'', [], ''7'', ''9'', ''You'']\<rparr>"
  by (simp add: duelRow_def project_foreign_0xaa renderRow_def js_join_def cellText_def)


section \<open>The claims\<close>

subsection \<open>The tally\<close>

text \<open>
  Claim C1. For every list of duels and every searched player, \<open>wins\<close> and \<open>losses\<close>
  add up to the number of duels. Both are counts of duels: \<open>wins\<close> is not negative, and
  \<open>losses\<close> is the number of duels that are not wins, so the two split the whole list.
\<close>

theorem wins_losses_partition:
  "wins ds p + losses ds p = int (length ds) \<and> 0 \<le> wins ds p \<and>
   losses ds p = int (length (filter (\<lambda>d. \<not> isWin p d) ds))"
proof -
  have "wins ds p + losses ds p = int (length ds)"
    by (simp add: losses_def)
  moreover have "0 \<le> wins ds p"
    by (simp add: wins_def)
  ultimately show ?thesis
    using losses_eq_filter [of ds p] by simp
qed

text \<open>
  Claim C6. \<open>wins\<close> is the number of duels whose \<open>winner\<close> is present and equal to the
  searched player after lower-casing both, and \<open>losses\<close> is the number of all other
  duels, those without a winner included. Nothing but the \<open>winner\<close> fields counts: two
  lists of duels with the same winners, whoever took part in them, have the same
  tally.
\<close>

theorem wins_count_winner_only:
  "wins ds p =
     int (length (filter (\<lambda>d. \<exists>w. winner d = Some w \<and> toLowerCase w = toLowerCase p) ds)) \<and>
   losses ds p =
     int (length (filter (\<lambda>d. \<not> (\<exists>w. winner d = Some w \<and> toLowerCase w = toLowerCase p)) ds)) \<and>
   (\<forall>ds' :: 'b duel list. map winner ds' = map winner ds \<longrightarrow>
      wins ds' p = wins ds p \<and> losses ds' p = losses ds p)"
proof -
  have eq: "isWin p = (\<lambda>d :: 'a duel. \<exists>w. winner d = Some w \<and> toLowerCase w = toLowerCase p)"
    by (rule ext) (rule isWin_iff)
  have w: "wins ds p =
     int (length (filter (\<lambda>d. \<exists>w. winner d = Some w \<and> toLowerCase w = toLowerCase p) ds))"
    by (simp add: wins_def eq)
  have l: "losses ds p =
     int (length (filter (\<lambda>d. \<not> (\<exists>w. winner d = Some w \<and> toLowerCase w = toLowerCase p)) ds))"
    by (simp add: losses_eq_filter eq)
  have i: "wins ds' p = wins ds p \<and> losses ds' p = losses ds p"
    if m: "map winner ds' = map winner ds" for ds' :: "'b duel list"
  proof -
    from m have "length ds' = length ds"
      by (rule map_eq_imp_length_eq)
    with wins_winner_only [OF m] show ?thesis
      by (simp add: losses_def)
  qed
  from w l i show ?thesis by blast
qed

text \<open>
  The searched player \<open>0xAA\<close> takes no part in \<open>duel_foreign\<close>, whose winner is \<open>0xaa\<close>:
  the duel is a win all the same, and the duel without a winner is a loss.
\<close>

theorem wins_count_winner_only_witness:
  "map winner [duel_foreign, duel_d1\<lparr>winner := None\<rparr>] =
     map winner [duel_d1\<lparr>winner := Some ''0xaa''\<rparr>, duel_foreign\<lparr>winner := None\<rparr>] \<and>
   wins [duel_foreign, duel_d1\<lparr>winner := None\<rparr>] ''0xAA'' = 1 \<and>
   losses [duel_foreign, duel_d1\<lparr>winner := None\<rparr>] ''0xAA'' = 1 \<and>
   wins [duel_d1\<lparr>winner := Some ''0xaa''\<rparr>, duel_foreign\<lparr>winner := None\<rparr>] ''0xAA'' = 1 \<and>
   isPlayer1 duel_foreign ''0xAA'' = Inr False \<and>
   map_option toLowerCase (Option.bind (player2 duel_foreign) address) \<noteq>
     Some (toLowerCase ''0xAA'')"
proof -
  have m: "map winner [duel_foreign, duel_d1\<lparr>winner := None\<rparr>] =
     map winner [duel_d1\<lparr>winner := Some ''0xaa''\<rparr>, duel_foreign\<lparr>winner := None\<rparr>]"
    by (simp add: duel_foreign_def)
  have w: "wins [duel_d1\<lparr>winner := Some ''0xaa''\<rparr>, duel_foreign\<lparr>winner := None\<rparr>] ''0xAA'' = 1"
    by (simp add: wins_def isWin_def lower_examples)
  have f: "isPlayer1 duel_foreign ''0xAA'' = Inr False \<and>
      map_option toLowerCase (Option.bind (player2 duel_foreign) address) \<noteq>
        Some (toLowerCase ''0xAA'')"
    by (simp add: isPlayer1_def duel_foreign_def lower_examples)
  from wins_count_winner_only
    [of "[duel_d1\<lparr>winner := Some ''0xaa''\<rparr>, duel_foreign\<lparr>winner := None\<rparr>]" "''0xAA''"]
  have "wins [duel_foreign, duel_d1\<lparr>winner := None\<rparr>] ''0xAA'' =
          wins [duel_d1\<lparr>winner := Some ''0xaa''\<rparr>, duel_foreign\<lparr>winner := None\<rparr>] ''0xAA'' \<and>
        losses [duel_foreign, duel_d1\<lparr>winner := None\<rparr>] ''0xAA'' =
          losses [duel_d1\<lparr>winner := Some ''0xaa''\<rparr>, duel_foreign\<lparr>winner := None\<rparr>] ''0xAA''"
    using m by blast
  with m w f show ?thesis
    by (simp add: losses_def)
qed

subsection \<open>Which participant the searched player is\<close>

text \<open>
  The searched player \<open>0xcc\<close> is neither participant of \<open>duel_d1\<close>. The projection is
  not the one of the first slot: the player's own sequences are those of \<open>player2\<close>
  and the opponent is \<open>player1\<close>.
\<close>

theorem default_first_slot_counterexample:
  "toLowerCase ''0xcc'' \<noteq> toLowerCase ''0xAA'' \<and> toLowerCase ''0xcc'' \<noteq> toLowerCase ''0xBB'' \<and>
   project duel_d1 ''0xcc'' =
     Inr \<lparr>pr_id = ''d1'', pr_opponent = Some ''0xAA'',
          pr_yourShots = Some [''3''], pr_yourDodges = Some [''5'', ''6''],
          pr_oppShots = Some [''1'', ''2''], pr_oppDodges = Some [''4''],
          pr_winner = Some ''Opponent''\<rparr> \<and>
   \<not> fromFirstSlot duel_d1
     \<lparr>pr_id = ''d1'', pr_opponent = Some ''0xAA'',
      pr_yourShots = Some [''3''], pr_yourDodges = Some [''5'', ''6''],
      pr_oppShots = Some [''1'', ''2''], pr_oppDodges = Some [''4''],
      pr_winner = Some ''Opponent''\<rparr> \<and>
   shotStepsP1 duel_d1 = Some [''1'', ''2''] \<and> shotStepsP2 duel_d1 = Some [''3'']"
  by (simp add: project_d1_0xcc lower_examples fromFirstSlot_def) (simp add: duel_d1_def)

text \<open>
  Claim C2, amended. For every duel whose \<open>player1\<close> has an address, and every searched
  player that matches neither participant's address after lower-casing, \<open>project\<close>
  returns a projection, and it is the one of the second slot: the player's own
  sequences are those of \<open>player2\<close>, the opponent's sequences and label those of
  \<open>player1\<close>.
\<close>

theorem unmatched_viewpoint_second_slot:
  assumes "player1 d = Some p1" and "address p1 = Some a"
    and "toLowerCase a \<noteq> toLowerCase p"
    and "map_option toLowerCase (Option.bind (player2 d) address) \<noteq> Some (toLowerCase p)"
  shows "\<exists>r. project d p = Inr r \<and> fromSecondSlot d r \<and> pr_id r = duel_id d \<and>
           pr_winner r = winner_label d p"
  using assms(1-3) by (simp add: project_second fromSecondSlot_def)

theorem unmatched_viewpoint_second_slot_witness:
  "player1 duel_d1 = Some \<lparr>address = Some ''0xAA'', username = None\<rparr> \<and>
   address \<lparr>address = Some ''0xAA'', username = None\<rparr> = Some ''0xAA'' \<and>
   toLowerCase ''0xAA'' \<noteq> toLowerCase ''0xcc'' \<and>
   map_option toLowerCase (Option.bind (player2 duel_d1) address) \<noteq>
     Some (toLowerCase ''0xcc'') \<and>
   (\<exists>r. project duel_d1 ''0xcc'' = Inr r \<and> fromSecondSlot duel_d1 r \<and>
        pr_id r = duel_id duel_d1 \<and> pr_winner r = winner_label duel_d1 ''0xcc'')"
proof -
  have a: "player1 duel_d1 = Some \<lparr>address = Some ''0xAA'', username = None\<rparr>"
    by (simp add: duel_d1_def)
  have a': "address \<lparr>address = Some ''0xAA'', username = None\<rparr> = Some ''0xAA''"
    by simp
  have b: "toLowerCase ''0xAA'' \<noteq> toLowerCase ''0xcc''"
    by (simp add: lower_examples)
  have c: "map_option toLowerCase (Option.bind (player2 duel_d1) address) \<noteq>
      Some (toLowerCase ''0xcc'')"
    by (simp add: duel_d1_def lower_examples)
  from unmatched_viewpoint_second_slot [OF a a' b c] a a' b c show ?thesis
    by blast
qed

text \<open>
  Claim C10. A projection never mixes the participants: it is the one of the first
  slot or the one of the second. When \<open>player1\<close> has an address that differs from the
  searched player after lower-casing, whether or not the searched player is
  \<open>player2\<close>, \<open>project\<close> returns a projection and it is the one of the second slot.
  When the address equals the searched player after lower-casing, every projection
  returned is the one of the first slot, and one is returned exactly when \<open>player2\<close> is
  present.
\<close>

theorem never_mixes_slots:
  "(\<forall>r. project d p = Inr r \<longrightarrow> fromFirstSlot d r \<or> fromSecondSlot d r) \<and>
   (\<forall>p1 a. player1 d = Some p1 \<and> address p1 = Some a \<longrightarrow>
      (toLowerCase a \<noteq> toLowerCase p \<longrightarrow>
         (\<exists>r. project d p = Inr r \<and> fromSecondSlot d r)) \<and>
      (toLowerCase a = toLowerCase p \<longrightarrow>
         (\<forall>r. project d p = Inr r \<longrightarrow> fromFirstSlot d r) \<and>
         ((\<exists>r. project d p = Inr r) \<longleftrightarrow> player2 d \<noteq> None)))"
proof -
  have m: "fromFirstSlot d r \<or> fromSecondSlot d r" if "project d p = Inr r" for r
    using that
    by (elim project_InrD)
      (auto simp add: fromFirstSlot_def fromSecondSlot_def slot_defs opponent_def
        split: if_splits option.splits)
  have s: "\<exists>r. project d p = Inr r \<and> fromSecondSlot d r"
    if "player1 d = Some p1" "address p1 = Some a" "toLowerCase a \<noteq> toLowerCase p"
    for p1 a
    using that by (simp add: project_second fromSecondSlot_def)
  have f: "(\<forall>r. project d p = Inr r \<longrightarrow> fromFirstSlot d r) \<and>
      ((\<exists>r. project d p = Inr r) \<longleftrightarrow> player2 d \<noteq> None)"
    if "player1 d = Some p1" "address p1 = Some a" "toLowerCase a = toLowerCase p"
    for p1 a
    using that by (cases "player2 d") (auto simp add: project_first fromFirstSlot_def)
  from m s f show ?thesis by blast
qed

theorem never_mixes_slots_witness:
  "player1 duel_d1 = Some \<lparr>address = Some ''0xAA'', username = None\<rparr> \<and>
   address \<lparr>address = Some ''0xAA'', username = None\<rparr> = Some ''0xAA'' \<and>
   toLowerCase ''0xAA'' \<noteq> toLowerCase ''0xcc'' \<and>
   project duel_d1 ''0xcc'' =
     Inr \<lparr>pr_id = ''d1'', pr_opponent = Some ''0xAA'',
          pr_yourShots = Some [''3''], pr_yourDodges = Some [''5'', ''6''],
          pr_oppShots = Some [''1'', ''2''], pr_oppDodges = Some [''4''],
          pr_winner = Some ''Opponent''\<rparr> \<and>
   fromSecondSlot duel_d1
     \<lparr>pr_id = ''d1'', pr_opponent = Some ''0xAA'',
      pr_yourShots = Some [''3''], pr_yourDodges = Some [''5'', ''6''],
      pr_oppShots = Some [''1'', ''2''], pr_oppDodges = Some [''4''],
      pr_winner = Some ''Opponent''\<rparr>"
proof -
  have a: "player1 duel_d1 = Some \<lparr>address = Some ''0xAA'', username = None\<rparr>"
    by (simp add: duel_d1_def)
  have a': "address \<lparr>address = Some ''0xAA'', username = None\<rparr> = Some ''0xAA''"
    by simp
  have n: "toLowerCase ''0xAA'' \<noteq> toLowerCase ''0xcc''"
    by (simp add: lower_examples)
  from never_mixes_slots [of duel_d1 "''0xcc''"] a a' n
  have "\<exists>r. project duel_d1 ''0xcc'' = Inr r \<and> fromSecondSlot duel_d1 r"
    by blast
  with a a' n show ?thesis
    by (simp add: project_d1_0xcc)
qed

text \<open>
  With an empty search text, a \<open>player1\<close> whose address is the empty string is taken
  for the searched player, and a \<open>player1\<close> without an address makes the comparison
  throw.
\<close>

theorem empty_viewpoint_counterexample:
  "isPlayer1 (duel_d1\<lparr>player1 := Some \<lparr>address = Some [], username = None\<rparr>\<rparr>) [] = Inr True \<and>
   isPlayer1 (duel_d1\<lparr>player1 := Some \<lparr>address = None, username = None\<rparr>\<rparr>) [] =
     Inl TypeError"
  by (simp add: isPlayer1_def lower_examples)

text \<open>
  Claim C4, amended. With the empty string as the searched player, the comparison of
  line 113 succeeds exactly when the address of \<open>player1\<close> is the empty string too, fails
  for every non-empty address, and throws a \<open>TypeError\<close> when the address, or \<open>player1\<close>
  itself, is missing.
\<close>

theorem empty_viewpoint_resolution:
  "isPlayer1 d [] =
     (case Option.bind (player1 d) address of
        None \<Rightarrow> Inl TypeError
      | Some a \<Rightarrow> Inr (a = []))"
  by (simp add: isPlayer1_def lower_empty toLowerCase_Nil_iff split: option.splits)

text \<open>
  Claim C7. Two search texts that are equal after lower-casing give the same answer of
  the comparison of line 113 and the same projection, for every duel. Lower-casing the
  search text, or the address stored in the duel, changes nothing either: both sides
  are lower-cased and then compared as they are.
\<close>

theorem resolve_case_invariant:
  "(toLowerCase v1 = toLowerCase v2 \<longrightarrow>
      isPlayer1 d v1 = isPlayer1 d v2 \<and> project d v1 = project d v2) \<and>
   isPlayer1 d (toLowerCase v) = isPlayer1 d v \<and>
   isPlayer1
     (d\<lparr>player1 :=
          map_option (\<lambda>q. q\<lparr>address := map_option toLowerCase (address q)\<rparr>) (player1 d)\<rparr>) v =
     isPlayer1 d v"
proof -
  have i: "isPlayer1 d v1 = isPlayer1 d v2" if "toLowerCase v1 = toLowerCase v2"
    using that by (simp add: isPlayer1_def split: option.splits)
  have w: "winner_label d v1 = winner_label d v2" if "toLowerCase v1 = toLowerCase v2"
    using that by (simp add: winner_label_def split: option.splits)
  have "isPlayer1 d v1 = isPlayer1 d v2 \<and> project d v1 = project d v2"
    if "toLowerCase v1 = toLowerCase v2"
    using i [OF that] w [OF that] by (simp add: project_def split: sum.splits)
  moreover have "isPlayer1 d (toLowerCase v) = isPlayer1 d v"
    by (simp add: isPlayer1_def toLowerCase_idem split: option.splits)
  moreover have
    "isPlayer1
       (d\<lparr>player1 :=
            map_option (\<lambda>q. q\<lparr>address := map_option toLowerCase (address q)\<rparr>) (player1 d)\<rparr>) v =
       isPlayer1 d v"
    by (simp add: isPlayer1_def toLowerCase_idem split: option.splits)
  ultimately show ?thesis by blast
qed

theorem resolve_case_invariant_witness:
  "toLowerCase ''0xABC'' = toLowerCase ''0xabc'' \<and>
   isPlayer1 (duel_d1\<lparr>player1 := Some \<lparr>address = Some ''0xabc'', username = None\<rparr>\<rparr>) ''0xABC'' =
     Inr True \<and>
   isPlayer1 (duel_d1\<lparr>player1 := Some \<lparr>address = Some ''0xabc'', username = None\<rparr>\<rparr>) ''0xabc'' =
     Inr True"
proof -
  have e: "toLowerCase ''0xABC'' = toLowerCase ''0xabc''"
    by (simp add: lower_examples)
  have t: "isPlayer1 (duel_d1\<lparr>player1 := Some \<lparr>address = Some ''0xabc'', username = None\<rparr>\<rparr>)
      ''0xabc'' = Inr True"
    by (simp add: isPlayer1_def)
  from resolve_case_invariant
    [of "''0xABC''" "''0xabc''"
        "duel_d1\<lparr>player1 := Some \<lparr>address = Some ''0xabc'', username = None\<rparr>\<rparr>"]
    e t
  show ?thesis by simp
qed

subsection \<open>The winner cell\<close>

text \<open>
  A duel whose \<open>winner\<close> is the empty string: the field is present and, for an empty
  search text, equal to the searched player, yet the cell is the empty string and not
  \<open>You\<close>; for the search text \<open>0xaa\<close> it is the empty string and not \<open>Opponent\<close>.
\<close>

theorem empty_winner_counterexample:
  "winner (duel_d1\<lparr>winner := Some []\<rparr>) = Some [] \<and> toLowerCase [] = toLowerCase [] \<and>
   project (duel_d1\<lparr>winner := Some []\<rparr>) [] =
     Inr \<lparr>pr_id = ''d1'', pr_opponent = Some ''0xAA'',
          pr_yourShots = Some [''3''], pr_yourDodges = Some [''5'', ''6''],
          pr_oppShots = Some [''1'', ''2''], pr_oppDodges = Some [''4''],
          pr_winner = Some []\<rparr> \<and>
   project (duel_d1\<lparr>winner := Some []\<rparr>) ''0xaa'' =
     Inr \<lparr>pr_id = ''d1'', pr_opponent = Some ''bob'',
          pr_yourShots = Some [''1'', ''2''], pr_yourDodges = Some [''4''],
          pr_oppShots = Some [''3''], pr_oppDodges = Some [''5'', ''6''],
          pr_winner = Some []\<rparr>"
  by (simp add: lower_examples project_def isPlayer1_def duel_d1_def slot_defs opponent_def
      js_or_def winner_label_def)

text \<open>
  Claim C5, amended. In every projection, the winner cell is the falsy \<open>winner\<close> itself
  (nothing to render) when the duel's \<open>winner\<close> is missing or the empty string.
  Otherwise it is \<open>You\<close> exactly when \<open>winner\<close> equals the searched player after
  lower-casing both, and \<open>Opponent\<close> exactly when it does not. The cell depends on the
  \<open>winner\<close> field and the searched player only, not on which participant the searched
  player is: two duels with the same \<open>winner\<close> have the same cell.
\<close>

theorem outcome_by_viewpoint:
  "\<forall>r. project (d :: 'a duel) p = Inr r \<longrightarrow>
      (winner d = None \<longrightarrow> pr_winner r = None) \<and>
      (winner d = Some [] \<longrightarrow> pr_winner r = Some []) \<and>
      (\<forall>w. winner d = Some w \<and> w \<noteq> [] \<longrightarrow>
         (pr_winner r = Some ''You'' \<longleftrightarrow> toLowerCase w = toLowerCase p) \<and>
         (pr_winner r = Some ''Opponent'' \<longleftrightarrow> toLowerCase w \<noteq> toLowerCase p)) \<and>
      (\<forall>(d' :: 'a duel) r'.
         project d' p = Inr r' \<and> winner d' = winner d \<longrightarrow> pr_winner r' = pr_winner r)"
proof -
  have l: "pr_winner r = winner_label d' p" if "project d' p = Inr r" for d' :: "'a duel" and r
    using that by (elim project_InrD)
  have "(winner d = None \<longrightarrow> pr_winner r = None) \<and>
      (winner d = Some [] \<longrightarrow> pr_winner r = Some []) \<and>
      (\<forall>w. winner d = Some w \<and> w \<noteq> [] \<longrightarrow>
         (pr_winner r = Some ''You'' \<longleftrightarrow> toLowerCase w = toLowerCase p) \<and>
         (pr_winner r = Some ''Opponent'' \<longleftrightarrow> toLowerCase w \<noteq> toLowerCase p)) \<and>
      (\<forall>(d' :: 'a duel) r'.
         project d' p = Inr r' \<and> winner d' = winner d \<longrightarrow> pr_winner r' = pr_winner r)"
    if "project d p = Inr r" for r
    using l [OF that] by (auto simp add: l winner_label_cases)
  then show ?thesis by blast
qed

theorem outcome_by_viewpoint_witness:
  "project duel_d1 ''0xaa'' =
     Inr \<lparr>pr_id = ''d1'', pr_opponent = Some ''bob'',
          pr_yourShots = Some [''1'', ''2''], pr_yourDodges = Some [''4''],
          pr_oppShots = Some [''3''], pr_oppDodges = Some [''5'', ''6''],
          pr_winner = Some ''You''\<rparr> \<and>
   winner duel_d1 = Some ''0xAA'' \<and> toLowerCase ''0xAA'' = toLowerCase ''0xaa'' \<and>
   pr_winner
     \<lparr>pr_id = ''d1'', pr_opponent = Some ''bob'',
      pr_yourShots = Some [''1'', ''2''], pr_yourDodges = Some [''4''],
      pr_oppShots = Some [''3''], pr_oppDodges = Some [''5'', ''6''],
      pr_winner = Some ''You''\<rparr> = Some ''You''"
proof -
  have w: "winner duel_d1 = Some ''0xAA''" "toLowerCase ''0xAA'' = toLowerCase ''0xaa''"
    by (simp_all add: duel_d1_def lower_examples)
  note v = outcome_by_viewpoint [of duel_d1 "''0xaa''"]
  from v project_d1_0xaa w
  have "pr_winner
     \<lparr>pr_id = ''d1'', pr_opponent = Some ''bob'',
      pr_yourShots = Some [''1'', ''2''], pr_yourDodges = Some [''4''],
      pr_oppShots = Some [''3''], pr_oppDodges = Some [''5'', ''6''],
      pr_winner = Some ''You''\<rparr> = Some ''You''"
    by blast
  with w project_d1_0xaa show ?thesis
    by blast
qed

subsection \<open>The rows of the table\<close>

text \<open>
  A duel without \<open>shotStepsP1\<close>, searched by its \<open>player1\<close>: the first join throws. The
  same duel with an empty \<open>shotStepsP1\<close> gives a row with an empty cell.
\<close>

theorem absent_steps_counterexample:
  "duelRow (\<lambda>s. s) (duel_d1\<lparr>shotStepsP1 := None\<rparr>) ''0xaa'' = Inl TypeError \<and>
   duelRow (\<lambda>s. s) (duel_d1\<lparr>shotStepsP1 := Some []\<rparr>) ''0xaa'' =
     Inr \<lparr>row_key = ''d1'',
          row_cells = [''d1'', ''bob'', [], ''4'', ''3'', ''5, 6'', ''You'']\<rparr>"
  by (simp add: lower_examples duelRow_def renderRow_def project_def isPlayer1_def duel_d1_def
      slot_defs opponent_def js_or_def winner_label_def js_join_def cellText_def)

text \<open>
  Claim C3, amended. An absent step sequence is not taken for an empty one: the
  callback throws a \<open>TypeError\<close> whenever one of the four step sequences is missing,
  for every searched player and every conversion of the steps to text. It returns a
  row exactly when all four step sequences are present and the participants it reads
  are: \<open>player1\<close> with its address, and \<open>player2\<close> when that address equals the searched
  player after lower-casing. A present but empty step sequence joins to the empty
  text.
\<close>

theorem duelRow_returns_iff:
  "((\<exists>row. duelRow str d p = Inr row) \<longleftrightarrow>
     (\<exists>p1 a. player1 d = Some p1 \<and> address p1 = Some a \<and>
        (toLowerCase a = toLowerCase p \<longrightarrow> player2 d \<noteq> None)) \<and>
     shotStepsP1 d \<noteq> None \<and> shotStepsP2 d \<noteq> None \<and>
     dodgeStepsP1 d \<noteq> None \<and> dodgeStepsP2 d \<noteq> None) \<and>
   (shotStepsP1 d = None \<or> shotStepsP2 d = None \<or> dodgeStepsP1 d = None \<or>
    dodgeStepsP2 d = None \<longrightarrow> duelRow str d p = Inl TypeError) \<and>
   js_join str (Some []) = Inr []"
proof -
  have seqs: "pr_yourShots r \<noteq> None \<and> pr_yourDodges r \<noteq> None \<and>
      pr_oppShots r \<noteq> None \<and> pr_oppDodges r \<noteq> None \<longleftrightarrow>
      shotStepsP1 d \<noteq> None \<and> shotStepsP2 d \<noteq> None \<and>
      dodgeStepsP1 d \<noteq> None \<and> dodgeStepsP2 d \<noteq> None"
    if "project d p = Inr r" for r
    using that by (elim project_InrD) (auto simp add: slot_defs)
  have row: "(\<exists>row. duelRow str d p = Inr row) \<longleftrightarrow>
      (\<exists>r. project d p = Inr r) \<and>
      shotStepsP1 d \<noteq> None \<and> shotStepsP2 d \<noteq> None \<and>
      dodgeStepsP1 d \<noteq> None \<and> dodgeStepsP2 d \<noteq> None"
  proof (cases "project d p")
    case (Inl e)
    then show ?thesis by (simp add: duelRow_def)
  next
    case (Inr r)
    with seqs [OF Inr] renderRow_Inr_iff [of str r] show ?thesis
      by (simp add: duelRow_def)
  qed
  have a: "(\<exists>row. duelRow str d p = Inr row) \<longleftrightarrow>
     (\<exists>p1 a. player1 d = Some p1 \<and> address p1 = Some a \<and>
        (toLowerCase a = toLowerCase p \<longrightarrow> player2 d \<noteq> None)) \<and>
     shotStepsP1 d \<noteq> None \<and> shotStepsP2 d \<noteq> None \<and>
     dodgeStepsP1 d \<noteq> None \<and> dodgeStepsP2 d \<noteq> None"
    using row by (simp add: project_returns_iff)
  have b: "duelRow str d p = Inl TypeError"
    if "shotStepsP1 d = None \<or> shotStepsP2 d = None \<or> dodgeStepsP1 d = None \<or>
        dodgeStepsP2 d = None"
  proof (cases "duelRow str d p")
    case (Inl e)
    then show ?thesis by (cases e) simp
  next
    case (Inr r)
    with a that show ?thesis by auto
  qed
  have c: "js_join str (Some []) = Inr []"
    by (simp add: js_join_def)
  from a b c show ?thesis by blast
qed

text \<open>
  On \<open>duel_d1\<close> searched by its \<open>player1\<close>, every part read is present and the row is
  returned.
\<close>

theorem duelRow_returns_iff_witness:
  "player1 duel_d1 = Some \<lparr>address = Some ''0xAA'', username = None\<rparr> \<and>
   toLowerCase ''0xAA'' = toLowerCase ''0xaa'' \<and> player2 duel_d1 \<noteq> None \<and>
   shotStepsP1 duel_d1 \<noteq> None \<and> shotStepsP2 duel_d1 \<noteq> None \<and>
   dodgeStepsP1 duel_d1 \<noteq> None \<and> dodgeStepsP2 duel_d1 \<noteq> None \<and>
   (\<exists>row. duelRow (\<lambda>s. s) duel_d1 ''0xaa'' = Inr row)"
proof -
  have p: "player1 duel_d1 = Some \<lparr>address = Some ''0xAA'', username = None\<rparr>"
    "player2 duel_d1 \<noteq> None"
    "shotStepsP1 duel_d1 \<noteq> None" "shotStepsP2 duel_d1 \<noteq> None"
    "dodgeStepsP1 duel_d1 \<noteq> None" "dodgeStepsP2 duel_d1 \<noteq> None"
    by (simp_all add: duel_d1_def)
  have e: "toLowerCase ''0xAA'' = toLowerCase ''0xaa''"
    by (simp add: lower_examples)
  have "\<exists>p1 a. player1 duel_d1 = Some p1 \<and> address p1 = Some a \<and>
      (toLowerCase a = toLowerCase ''0xaa'' \<longrightarrow> player2 duel_d1 \<noteq> None)"
    using p by simp
  with duelRow_returns_iff [of "\<lambda>s. s" duel_d1 "''0xaa''"] p
  have "\<exists>row. duelRow (\<lambda>s. s) duel_d1 ''0xaa'' = Inr row"
    by blast
  with p e show ?thesis by blast
qed

text \<open>
  Claim C8. The rows of the table are the rows of the duels, one for one and in the
  order of the duels: \<open>projectAll\<close> returns the list \<open>rs\<close> exactly when \<open>rs\<close> is as long
  as the list of duels and its \<open>i\<close>-th element is the row of the \<open>i\<close>-th duel. It throws
  exactly when the callback throws on one of the duels, and the rows of two lists of
  duels put end to end are the rows of the first followed by the rows of the second.
  The result is a function of the duels, the searched player and the conversion of
  steps to text alone, so that computing it again gives the same rows.
\<close>

theorem projectAll_order_preserving:
  "(projectAll str ds p = Inr rs \<longleftrightarrow>
      length rs = length ds \<and> (\<forall>i < length ds. duelRow str (ds ! i) p = Inr (rs ! i))) \<and>
   ((\<exists>e. projectAll str ds p = Inl e) \<longleftrightarrow> (\<exists>d \<in> set ds. \<exists>e. duelRow str d p = Inl e)) \<and>
   (projectAll str (ds @ es) p =
      (case projectAll str ds p of
         Inl e \<Rightarrow> Inl e
       | Inr rs1 \<Rightarrow> (case projectAll str es p of Inl e \<Rightarrow> Inl e | Inr rs2 \<Rightarrow> Inr (rs1 @ rs2))))"
proof -
  have a: "projectAll str ds p = Inr rs \<longleftrightarrow>
      length rs = length ds \<and> (\<forall>i < length ds. duelRow str (ds ! i) p = Inr (rs ! i))"
    by (auto simp add: projectAll_Inr_iff list_all2_conv_all_nth)
  from a projectAll_Inl_iff [of str ds p] projectAll_append [of str ds es p]
  show ?thesis by blast
qed

theorem projectAll_order_preserving_witness:
  "projectAll (\<lambda>s. s) [duel_d1, duel_foreign] ''0xaa'' =
     Inr [\<lparr>row_key = ''d1'',
           row_cells = [''d1'', ''bob'', ''1, 2'', ''4'', ''3'', ''5, 6'', ''You'']\<rparr>,
          \<lparr>row_key = ''d2'',
           row_cells = [''d2'', ''ann'', ''8'', [], ''7'', ''9'', ''You'']\<rparr>] \<and>
   duelRow (\<lambda>s. s) duel_d1 ''0xaa'' =
     Inr \<lparr>row_key = ''d1'',
          row_cells = [''d1'', ''bob'', ''1, 2'', ''4'', ''3'', ''5, 6'', ''You'']\<rparr> \<and>
   duelRow (\<lambda>s. s) duel_foreign ''0xaa'' =
     Inr \<lparr>row_key = ''d2'',
          row_cells = [''d2'', ''ann'', ''8'', [], ''7'', ''9'', ''You'']\<rparr>"
proof -
  note r1 = duelRow_d1_0xaa and r2 = duelRow_foreign_0xaa
  have "\<forall>i < length [duel_d1, duel_foreign].
      duelRow (\<lambda>s. s) ([duel_d1, duel_foreign] ! i) ''0xaa'' =
        Inr ([\<lparr>row_key = ''d1'',
               row_cells = [''d1'', ''bob'', ''1, 2'', ''4'', ''3'', ''5, 6'', ''You'']\<rparr>,
              \<lparr>row_key = ''d2'',
               row_cells = [''d2'', ''ann'', ''8'', [], ''7'', ''9'', ''You'']\<rparr>] ! i)"
    using r1 r2 by (simp add: less_Suc_eq)
  with projectAll_order_preserving
    [of "\<lambda>s. s" "[duel_d1, duel_foreign]" "''0xaa''"
        "[\<lparr>row_key = ''d1'',
           row_cells = [''d1'', ''bob'', ''1, 2'', ''4'', ''3'', ''5, 6'', ''You'']\<rparr>,
          \<lparr>row_key = ''d2'',
           row_cells = [''d2'', ''ann'', ''8'', [], ''7'', ''9'', ''You'']\<rparr>]"]
    r1 r2
  show ?thesis by simp
qed

subsection \<open>The search\<close>

text \<open>
  Claim C9. When the request throws, when the answer carries \<open>errors\<close>, and when it
  carries neither \<open>errors\<close> nor \<open>data\<close>, \<open>searchDuels\<close> changes nothing but the error
  message, which it sets: the duels held before stay as they were. Only an answer
  with \<open>data\<close> and without \<open>errors\<close> replaces the duels, by the whole of \<open>allDuels\<close>, and
  leaves no error message. The search text is never changed.
\<close>

theorem searchDuels_error_keeps_duels:
  "searchDuels tmsg st (Threw m) = st\<lparr>error := Some (''Request failed: '' @ m)\<rparr> \<and>
   searchDuels tmsg st (Resolved \<lparr>errors = Some s, data = dt\<rparr>) =
     st\<lparr>error := Some (''GraphQL error: '' @ s)\<rparr> \<and>
   searchDuels tmsg st (Resolved \<lparr>errors = None, data = None\<rparr>) =
     st\<lparr>error := Some (''Request failed: '' @ tmsg)\<rparr> \<and>
   searchDuels tmsg st (Resolved \<lparr>errors = None, data = Some \<lparr>allDuels = ds\<rparr>\<rparr>) =
     st\<lparr>error := None, duels := ds\<rparr> \<and>
   duels (searchDuels tmsg st (Threw m)) = duels st \<and>
   duels (searchDuels tmsg st (Resolved \<lparr>errors = Some s, data = dt\<rparr>)) = duels st \<and>
   duels (searchDuels tmsg st (Resolved \<lparr>errors = None, data = Some \<lparr>allDuels = ds\<rparr>\<rparr>)) = ds \<and>
   player (searchDuels tmsg st res) = player st"
  by (simp add: searchDuels_def Let_def split: fetch_result.splits option.splits)

end
